theory Spec2Isabelle
  imports Complex_Main "HOL-Library.Sublist"
begin

section \<open>Host values\<close>

text \<open>
  A JavaScript \<open>number\<close>: a finite value, or one of the three non-finite ones. The code
  below only copies numbers, classifies them (\<open>Number.isNaN\<close>, \<open>Number.isFinite\<close>) and
  compares them with small integer constants, so finite values are read as reals.
\<close>

datatype number = Val real | NaN | Infinity | MinusInfinity

fun isNaN :: "number \<Rightarrow> bool" where
  "isNaN NaN = True"
| "isNaN _ = False"

fun isFinite :: "number \<Rightarrow> bool" where
  "isFinite (Val _) = True"
| "isFinite _ = False"

text \<open>The relational operator \<open><\<close> on numbers; every comparison with \<open>NaN\<close> is false.\<close>

fun num_less :: "number \<Rightarrow> number \<Rightarrow> bool" where
  "num_less NaN _ = False"
| "num_less _ NaN = False"
| "num_less (Val a) (Val b) = (a < b)"
| "num_less (Val _) Infinity = True"
| "num_less (Val _) MinusInfinity = False"
| "num_less Infinity _ = False"
| "num_less MinusInfinity MinusInfinity = False"
| "num_less MinusInfinity _ = True"

text \<open>A parsed JSON document, and the untyped payload of a queued mutation.\<close>

datatype json =
    JNull
  | JBool bool
  | JNumber number
  | JString string
  | JArray "json list"
  | JObject "(string \<times> json) list"


text \<open>
  Timestamps are ISO-8601 strings made by \<open>new Date().toISOString()\<close> and compared through
  \<open>new Date(s).getTime()\<close>; a timestamp is represented by that instant, in milliseconds.
\<close>

type_synonym timestamp = int

text \<open>Decimal rendering of a natural number, as string interpolation of an integer does.\<close>

definition digitChar :: "nat \<Rightarrow> char" where
  "digitChar n = ''0123456789'' ! (n mod 10)"

fun showNat :: "nat \<Rightarrow> string" where
  "showNat n = (if n < 10 then [digitChar n] else showNat (n div 10) @ [digitChar (n mod 10)])"

declare showNat.simps [simp del]

text \<open>\<open>String.prototype.trim\<close> on the byte-sized white space characters.\<close>

definition isWhiteSpace :: "char \<Rightarrow> bool" where
  "isWhiteSpace c = (c \<in> set [CHR 0x09, CHR 0x0A, CHR 0x0B, CHR 0x0C, CHR 0x0D, CHR 0x20, CHR 0xA0])"

definition trim :: "string \<Rightarrow> string" where
  "trim s = rev (dropWhile isWhiteSpace (rev (dropWhile isWhiteSpace s)))"


section \<open>types/mass.ts and the profile and settings records\<close>

datatype MassUnit = Kg | Lb

datatype SyncStatus = Pending | Synced | Failed

datatype SyncOperation = Create | Update | Delete

datatype EntityType = MassEntryEntity

record MassEntry =
  e_id :: string
  e_profileId :: string
  e_mass :: number
  e_unit :: MassUnit
  e_note :: "string option"
  e_tags :: "string list"
  e_loggedAt :: timestamp
  e_status :: SyncStatus
  e_createdAt :: timestamp
  e_updatedAt :: timestamp


record SyncMutation =
  m_id :: string
  m_entityType :: EntityType
  m_entityId :: string
  m_operation :: SyncOperation
  m_payload :: json
  m_attempts :: nat
  m_lastError :: "string option"
  m_createdAt :: timestamp
  m_updatedAt :: timestamp

text \<open>
  The profile types are imported from \<open>@/types/profile\<close>; their fields are the ones
  \<open>saveUserProfile\<close> and \<open>mapRowToProfile\<close> read and write.
\<close>

record UserProfile =
  p_id :: string
  p_fullName :: string
  p_email :: "string option"
  p_bio :: "string option"
  p_unitPreference :: MassUnit
  p_goalMass :: "number option"
  p_createdAt :: timestamp
  p_updatedAt :: timestamp

record UserProfileInput =
  pi_fullName :: string
  pi_email :: "string option"
  pi_bio :: "string option"
  pi_unitPreference :: "MassUnit option"
  pi_goalMass :: "number option"

record AppSettings =
  autoSync :: bool
  remindersEnabled :: bool
  reminderHour :: number
  lastSync :: "string option"
  reminderNotificationId :: "string option"

text \<open>\<open>Partial<AppSettings>\<close>: every key may be absent.\<close>

record PartialAppSettings =
  pa_autoSync :: "bool option"
  pa_remindersEnabled :: "bool option"
  pa_reminderHour :: "number option"
  pa_lastSync :: "string option option"
  pa_reminderNotificationId :: "string option option"

definition DEFAULT_SETTINGS :: AppSettings where
  "DEFAULT_SETTINGS =
     \<lparr> autoSync = True, remindersEnabled = True, reminderHour = Val 7,
       lastSync = None, reminderNotificationId = None \<rparr>"

definition PROFILE_ID :: string where
  "PROFILE_ID = ''primary_profile''"


section \<open>The storage service on the localStorage backend\<close>

text \<open>
  The storage module keeps the whole database in the module variable \<open>webState\<close> and
  writes it, serialised, under one localStorage key after every change. On this backend
  \<open>webState\<close> is set when the module loads, so \<open>ensureWebState\<close> returns it and the
  \<open>if (state)\<close> guards of the operations are taken. The store is that variable together
  with the browser's storage: \<open>None\<close> when \<open>getWebStorage\<close> finds no localStorage,
  otherwise the item under the key (absent, or the state last written). A write to the
  browser storage is taken to succeed, so the storage operations are total. The native
  backend sends SQL text to SQLite and is not part of this development.
\<close>

record WebState =
  massEntries :: "MassEntry list"
  syncQueue :: "SyncMutation list"
  profile :: "UserProfile option"
  settings :: AppSettings

record Store =
  webState :: WebState
  storage :: "WebState option option"

definition ensureWebState :: "Store \<Rightarrow> WebState" where
  "ensureWebState st = webState st"

definition persistWebState :: "Store \<Rightarrow> Store" where
  "persistWebState st =
     (case storage st of
        None \<Rightarrow> st
      | Some _ \<Rightarrow> st\<lparr>storage := Some (Some (webState st))\<rparr>)"



text \<open>
  \<open>createId\<close> reads the host's random source: \<open>crypto.randomUUID()\<close> when there is one,
  otherwise the clock and \<open>Math.random().toString(16).slice(2)\<close>.
\<close>

record IdSource =
  randomUUID :: "string option"
  dateNow :: nat
  randomHex :: string

definition createId :: "IdSource \<Rightarrow> string" where
  "createId src =
     (case randomUUID src of
        Some uuid \<Rightarrow> uuid
      | None \<Rightarrow> showNat (dateNow src) @ ''-'' @ randomHex src)"

definition sortMutationsAsc :: "SyncMutation list \<Rightarrow> SyncMutation list" where
  "sortMutationsAsc mutations = sort_key m_createdAt mutations"


definition updateMassEntryStatus :: "timestamp \<Rightarrow> string \<Rightarrow> SyncStatus \<Rightarrow> Store \<Rightarrow> Store" where
  "updateMassEntryStatus now ident status st =
     (let state = ensureWebState st
      in persistWebState (st\<lparr>webState := state\<lparr>massEntries :=
           map (\<lambda>entry. if e_id entry = ident then entry\<lparr>e_status := status, e_updatedAt := now\<rparr> else entry)
               (massEntries state)\<rparr>\<rparr>))"

definition enqueueMutation ::
  "timestamp \<Rightarrow> IdSource \<Rightarrow> string \<Rightarrow> SyncOperation \<Rightarrow> json \<Rightarrow> Store \<Rightarrow> string \<times> Store" where
  "enqueueMutation now src entityId operation payload st =
     (let mutationId = createId src;
          state = ensureWebState st;
          mutation =
            \<lparr> m_id = mutationId,
              m_entityType = MassEntryEntity,
              m_entityId = entityId,
              m_operation = operation,
              m_payload = payload,
              m_attempts = 0,
              m_lastError = None,
              m_createdAt = now,
              m_updatedAt = now \<rparr>
      in (mutationId, persistWebState (st\<lparr>webState := state\<lparr>syncQueue := syncQueue state @ [mutation]\<rparr>\<rparr>)))"

definition listPendingMutations :: "nat \<Rightarrow> Store \<Rightarrow> SyncMutation list" where
  "listPendingMutations limit st = take limit (sortMutationsAsc (syncQueue (ensureWebState st)))"

definition deleteMutation :: "string \<Rightarrow> Store \<Rightarrow> Store" where
  "deleteMutation ident st =
     (let state = ensureWebState st
      in persistWebState (st\<lparr>webState := state\<lparr>syncQueue :=
           filter (\<lambda>mutation. m_id mutation \<noteq> ident) (syncQueue state)\<rparr>\<rparr>))"

definition recordMutationError :: "timestamp \<Rightarrow> string \<Rightarrow> string \<Rightarrow> Store \<Rightarrow> Store" where
  "recordMutationError now ident errorMessage st =
     (let state = ensureWebState st
      in persistWebState (st\<lparr>webState := state\<lparr>syncQueue :=
           map (\<lambda>mutation.
                  if m_id mutation = ident
                  then mutation\<lparr>m_attempts := m_attempts mutation + 1,
                                m_lastError := Some errorMessage,
                                m_updatedAt := now\<rparr>
                  else mutation)
               (syncQueue state)\<rparr>\<rparr>))"

definition getUserProfile :: "Store \<Rightarrow> UserProfile option" where
  "getUserProfile st = profile (ensureWebState st)"

definition saveUserProfile :: "timestamp \<Rightarrow> UserProfileInput \<Rightarrow> Store \<Rightarrow> UserProfile \<times> Store" where
  "saveUserProfile now input st =
     (let prof =
            \<lparr> p_id = PROFILE_ID,
              p_fullName = trim (pi_fullName input),
              p_email = map_option trim (pi_email input),
              p_bio = map_option trim (pi_bio input),
              p_unitPreference = (case pi_unitPreference input of None \<Rightarrow> Kg | Some u \<Rightarrow> u),
              p_goalMass =
                (case pi_goalMass input of
                   None \<Rightarrow> None
                 | Some g \<Rightarrow> if isNaN g then None else Some g),
              p_createdAt = now,
              p_updatedAt = now \<rparr>;
          state = ensureWebState st;
          saved =
            (case profile state of
               Some existing \<Rightarrow> prof\<lparr>p_createdAt := p_createdAt existing, p_updatedAt := now\<rparr>
             | None \<Rightarrow> prof)
      in (saved, persistWebState (st\<lparr>webState := state\<lparr>profile := Some saved\<rparr>\<rparr>)))"

definition asPartial :: "AppSettings \<Rightarrow> PartialAppSettings" where
  "asPartial s =
     \<lparr> pa_autoSync = Some (autoSync s),
       pa_remindersEnabled = Some (remindersEnabled s),
       pa_reminderHour = Some (reminderHour s),
       pa_lastSync = Some (lastSync s),
       pa_reminderNotificationId = Some (reminderNotificationId s) \<rparr>"

text \<open>The object spread \<open>{...base, ...patch}\<close>: a key of the patch wins where present.\<close>

definition spread :: "AppSettings \<Rightarrow> PartialAppSettings \<Rightarrow> AppSettings" where
  "spread base patch =
     \<lparr> autoSync = (case pa_autoSync patch of None \<Rightarrow> autoSync base | Some v \<Rightarrow> v),
       remindersEnabled = (case pa_remindersEnabled patch of None \<Rightarrow> remindersEnabled base | Some v \<Rightarrow> v),
       reminderHour = (case pa_reminderHour patch of None \<Rightarrow> reminderHour base | Some v \<Rightarrow> v),
       lastSync = (case pa_lastSync patch of None \<Rightarrow> lastSync base | Some v \<Rightarrow> v),
       reminderNotificationId =
         (case pa_reminderNotificationId patch of None \<Rightarrow> reminderNotificationId base | Some v \<Rightarrow> v) \<rparr>"

definition mergeSettings :: "PartialAppSettings \<Rightarrow> AppSettings" where
  "mergeSettings v =
     (let raw = spread DEFAULT_SETTINGS v;
          hour = (if isFinite (reminderHour raw) then reminderHour raw
                  else reminderHour DEFAULT_SETTINGS)
      in raw\<lparr>reminderHour := hour\<rparr>)"

definition applyWebSettings :: "AppSettings \<Rightarrow> Store \<Rightarrow> Store" where
  "applyWebSettings s st =
     (let state = ensureWebState st
      in persistWebState (st\<lparr>webState := state\<lparr>settings := mergeSettings (asPartial s)\<rparr>\<rparr>))"

definition getAppSettings :: "Store \<Rightarrow> AppSettings" where
  "getAppSettings st = settings (ensureWebState st)"

definition saveAppSettings :: "AppSettings \<Rightarrow> Store \<Rightarrow> AppSettings \<times> Store" where
  "saveAppSettings s st =
     (let normalized = mergeSettings (asPartial s)
      in (normalized, applyWebSettings normalized st))"


section \<open>The settings store and the reminder form\<close>

text \<open>
  \<open>useSettingsStore\<close> holds a copy of the settings; \<open>update\<close> spreads a patch over it and
  saves the result. \<open>handleSaveReminder\<close> of the settings screen parses the text field with
  \<open>Number.parseInt(_, 10)\<close>, a host function taken as a parameter, and shows an alert
  instead of saving when the hour is not a number between 0 and 23.
\<close>

record SettingsState =
  ss_settings :: AppSettings
  ss_isHydrated :: bool

definition noPatch :: PartialAppSettings where
  "noPatch =
     \<lparr> pa_autoSync = None, pa_remindersEnabled = None, pa_reminderHour = None,
       pa_lastSync = None, pa_reminderNotificationId = None \<rparr>"

definition update :: "PartialAppSettings \<Rightarrow> SettingsState \<times> Store \<Rightarrow> AppSettings \<times> SettingsState \<times> Store" where
  "update patch s =
     (let current = ss_settings (fst s);
          (updated, st') = saveAppSettings (spread current patch) (snd s)
      in (updated, \<lparr> ss_settings = updated, ss_isHydrated = True \<rparr>, st'))"

definition handleSaveReminder :: "(string \<Rightarrow> number) \<Rightarrow> string \<Rightarrow> SettingsState \<times> Store \<Rightarrow> SettingsState \<times> Store" where
  "handleSaveReminder parseInt reminderInput s =
     (let hour = parseInt reminderInput
      in if isNaN hour \<or> num_less hour (Val 0) \<or> num_less (Val 23) hour
         then s
         else snd (update (noPatch\<lparr>pa_reminderHour := Some hour\<rparr>) s))"


section \<open>services/sync.ts\<close>

definition normalizeEndpoint :: "string \<Rightarrow> string" where
  "normalizeEndpoint endpoint =
     (if endpoint \<noteq> [] \<and> last endpoint = CHR ''/'' then butlast endpoint else endpoint)"

text \<open>The module constant \<open>SYNC_ENDPOINT\<close>, from the environment variable.\<close>

definition SYNC_ENDPOINT :: "string option \<Rightarrow> string option" where
  "SYNC_ENDPOINT rawSyncEndpoint =
     (case rawSyncEndpoint of
        None \<Rightarrow> None
      | Some raw \<Rightarrow>
          if suffix ''/v1/mass'' raw then Some (normalizeEndpoint raw)
          else if raw \<noteq> [] then Some (normalizeEndpoint raw @ ''/v1/mass'')
          else None)"

record SyncStats =
  attempted :: nat
  synced :: nat
  skipped :: bool
  reason :: "string option"
  errors :: "string list"

datatype HttpMethod = POST | PATCH | DELETE

record Request =
  url :: string
  httpMethod :: HttpMethod
  headers :: "(string \<times> string) list"
  body :: "json option"

record Response =
  r_ok :: bool
  r_status :: nat
  r_text :: string

text \<open>What a \<open>throw\<close> carries: an \<open>Error\<close> with its message, or any other value.\<close>

datatype thrown = Error string | NonError

datatype FetchResult = Rejected thrown | Resolved Response

text \<open>
  The host outside the program: the network, which answers a request and moves on, and the
  clock, read from the host's state. The type \<open>'w\<close> of that state is arbitrary.
\<close>

record 'w Host =
  h_fetch :: "'w \<Rightarrow> Request \<Rightarrow> FetchResult \<times> 'w"
  h_now :: "'w \<Rightarrow> timestamp"

definition buildHeaders :: "string option \<Rightarrow> (string \<times> string) list" where
  "buildHeaders token =
     (let headers = [(''Content-Type'', ''application/json'')]
      in case token of
           None \<Rightarrow> headers
         | Some t \<Rightarrow> if t \<noteq> [] then headers @ [(''Authorization'', ''Bearer '' @ t)] else headers)"

definition getMutationUrl :: "string option \<Rightarrow> SyncMutation \<Rightarrow> string" where
  "getMutationUrl endpoint mutation =
     (case map_option normalizeEndpoint endpoint of
        None \<Rightarrow> []
      | Some base \<Rightarrow>
          if base = [] then []
          else if m_operation mutation = Update \<or> m_operation mutation = Delete
          then base @ ''/'' @ m_entityId mutation
          else base)"

fun requestMethodForOperation :: "SyncOperation \<Rightarrow> HttpMethod" where
  "requestMethodForOperation Update = PATCH"
| "requestMethodForOperation Delete = DELETE"
| "requestMethodForOperation _ = POST"

text \<open>The argument of \<open>fetch\<close> in \<open>sendMutation\<close>; the body stands for its JSON text.\<close>

definition mutationRequest :: "string option \<Rightarrow> string option \<Rightarrow> SyncMutation \<Rightarrow> Request" where
  "mutationRequest endpoint token mutation =
     (let verb = requestMethodForOperation (m_operation mutation)
      in \<lparr> url = getMutationUrl endpoint mutation,
           httpMethod = verb,
           headers = buildHeaders token,
           body = (if verb = DELETE then None else Some (m_payload mutation)) \<rparr>)"

definition sendMutation ::
  "'w Host \<Rightarrow> string option \<Rightarrow> string option \<Rightarrow> 'w \<Rightarrow> SyncMutation \<Rightarrow> (thrown + unit) \<times> 'w" where
  "sendMutation H endpoint token w mutation =
     (if getMutationUrl endpoint mutation = []
      then (Inl (Error ''SYNC_ENDPOINT is not configured''), w)
      else (case h_fetch H w (mutationRequest endpoint token mutation) of
              (Rejected e, w') \<Rightarrow> (Inl e, w')
            | (Resolved response, w') \<Rightarrow>
                if \<not> r_ok response
                then (Inl (Error (if r_text response \<noteq> [] then r_text response
                                  else ''Failed with status '' @ showNat (r_status response))), w')
                else (Inr (), w')))"

definition messageOf :: "thrown \<Rightarrow> string" where
  "messageOf e = (case e of Error message \<Rightarrow> message | NonError \<Rightarrow> ''Unknown sync error'')"

text \<open>
  The \<open>for\<close> loop of \<open>syncPendingEntries\<close> over the mutations still to send, on the host
  state, the store and the two accumulators \<open>synced\<close> and \<open>errors\<close>.
\<close>

fun syncLoop ::
  "'w Host \<Rightarrow> string option \<Rightarrow> string option \<Rightarrow> SyncMutation list \<Rightarrow>
   'w \<times> Store \<times> nat \<times> string list \<Rightarrow> 'w \<times> Store \<times> nat \<times> string list" where
  "syncLoop H endpoint token [] acc = acc"
| "syncLoop H endpoint token (mutation # rest) (w, st, n, errs) =
     (case sendMutation H endpoint token w mutation of
        (Inr _, w') \<Rightarrow>
          syncLoop H endpoint token rest
            (w',
             updateMassEntryStatus (h_now H w') (m_entityId mutation) Synced
               (deleteMutation (m_id mutation) st),
             n + 1, errs)
      | (Inl e, w') \<Rightarrow>
          syncLoop H endpoint token rest
            (w',
             recordMutationError (h_now H w') (m_id mutation) (messageOf e) st,
             n, errs @ [messageOf e]))"

definition syncPendingEntries ::
  "'w Host \<Rightarrow> string option \<Rightarrow> string option \<Rightarrow> 'w \<times> Store \<Rightarrow> SyncStats \<times> 'w \<times> Store" where
  "syncPendingEntries H rawSyncEndpoint token s =
     (let endpoint = SYNC_ENDPOINT rawSyncEndpoint
      in if endpoint = None \<or> endpoint = Some []
         then (\<lparr> attempted = 0, synced = 0, skipped = True,
                  reason = Some ''SYNC_ENDPOINT not configured'', errors = [] \<rparr>, s)
         else (let mutations = listPendingMutations 25 (snd s)
               in if length mutations = 0
                  then (\<lparr> attempted = 0, synced = 0, skipped = False, reason = None, errors = [] \<rparr>, s)
                  else (case syncLoop H endpoint token mutations (fst s, snd s, 0, []) of
                          (w', st', n, errs) \<Rightarrow>
                            (\<lparr> attempted = length mutations, synced = n, skipped = False,
                               reason = None, errors = errs \<rparr>, w', st'))))"


section \<open>Observing a run\<close>

text \<open>
  What happened at each send of a run, in order: what \<open>sendMutation\<close> returned or threw
  for each mutation, with the clock reading that followed, when the host is asked in
  sequence.
\<close>

fun sendTrace ::
  "'w Host \<Rightarrow> string option \<Rightarrow> string option \<Rightarrow> 'w \<Rightarrow> SyncMutation list \<Rightarrow>
   ((thrown + unit) \<times> timestamp) list" where
  "sendTrace H endpoint token w [] = []"
| "sendTrace H endpoint token w (mutation # rest) =
     (case sendMutation H endpoint token w mutation of
        (r, w') \<Rightarrow> (r, h_now H w') # sendTrace H endpoint token w' rest)"









text \<open>The range the settings screen accepts for the reminder hour.\<close>

fun inHourRange :: "number \<Rightarrow> bool" where
  "inHourRange (Val r) = (0 \<le> r \<and> r \<le> 23)"
| "inHourRange _ = False"




section \<open>Sample data\<close>

definition baseWebState :: WebState where
  "baseWebState =
     \<lparr> massEntries = [], syncQueue = [], profile = None, settings = DEFAULT_SETTINGS \<rparr>"

definition freshStore :: Store where
  "freshStore = \<lparr> webState = baseWebState, storage = Some None \<rparr>"



definition sampleEntry :: "string \<Rightarrow> MassEntry" where
  "sampleEntry ident =
     \<lparr> e_id = ident, e_profileId = ''default'', e_mass = Val 70.4, e_unit = Kg, e_note = None,
       e_tags = [], e_loggedAt = 5, e_status = Pending, e_createdAt = 5, e_updatedAt = 5 \<rparr>"

definition sampleMutation :: "string \<Rightarrow> string \<Rightarrow> SyncOperation \<Rightarrow> timestamp \<Rightarrow> SyncMutation" where
  "sampleMutation ident entityId operation t =
     \<lparr> m_id = ident, m_entityType = MassEntryEntity, m_entityId = entityId,
       m_operation = operation, m_payload = JObject [(''id'', JString entityId)],
       m_attempts = 0, m_lastError = None, m_createdAt = t, m_updatedAt = t \<rparr>"

definition queuedStore :: Store where
  "queuedStore =
     \<lparr> webState = baseWebState
         \<lparr> massEntries := [sampleEntry ''e2'', sampleEntry ''e1''],
           syncQueue := [sampleMutation ''m2'' ''e2'' Create 20, sampleMutation ''m1'' ''e1'' Create 10] \<rparr>,
       storage = Some None \<rparr>"

definition sampleProfile :: UserProfile where
  "sampleProfile =
     \<lparr> p_id = PROFILE_ID, p_fullName = ''Ada'', p_email = None, p_bio = None,
       p_unitPreference = Kg, p_goalMass = None, p_createdAt = 5, p_updatedAt = 5 \<rparr>"

definition profileStore :: Store where
  "profileStore = freshStore\<lparr>webState := baseWebState\<lparr>profile := Some sampleProfile\<rparr>\<rparr>"

definition sampleProfileInput :: UserProfileInput where
  "sampleProfileInput =
     \<lparr> pi_fullName = '' Ada L '', pi_email = Some ''ada@example.org'', pi_bio = None,
       pi_unitPreference = Some Lb, pi_goalMass = Some NaN \<rparr>"

definition sampleSettingsState :: SettingsState where
  "sampleSettingsState = \<lparr> ss_settings = DEFAULT_SETTINGS, ss_isHydrated = True \<rparr>"

definition sampleParseInt :: "string \<Rightarrow> number" where
  "sampleParseInt s = (if s = ''21'' then Val 21 else NaN)"



text \<open>A host that accepts every request, and one that answers the first request with 500.\<close>

definition acceptAll :: "nat Host" where
  "acceptAll =
     \<lparr> h_fetch = (\<lambda>w req. (Resolved \<lparr> r_ok = True, r_status = 201, r_text = [] \<rparr>, w + 1)),
       h_now = (\<lambda>w. 1000 + int w) \<rparr>"







section \<open>Properties of the storage service\<close>

lemma webState_persist [simp]: "webState (persistWebState st) = webState st"
  by (cases "storage st") (simp_all add: persistWebState_def)

lemma storage_persist:
  "storage (persistWebState st) =
     (case storage st of None \<Rightarrow> None | Some _ \<Rightarrow> Some (Some (webState st)))"
  by (cases "storage st") (simp_all add: persistWebState_def)

text \<open>Mutation ids stay pairwise distinct as long as \<open>createId\<close> returns an unused id.\<close>

lemma enqueueMutation_distinct:
  "distinct (map m_id (syncQueue (webState st))) \<Longrightarrow>
   createId src \<notin> m_id ` set (syncQueue (webState st)) \<Longrightarrow>
     distinct (map m_id (syncQueue (webState
       (snd (enqueueMutation now src entityId operation payload st)))))"
  by (simp add: enqueueMutation_def ensureWebState_def Let_def)

text \<open>
  C7. \<open>deleteMutation\<close> is idempotent: a second call with the same id changes nothing at
  all, and a call with an id that no queued mutation carries leaves the in-memory database,
  and so the pending list, as it was. The function is total, so no call raises.
\<close>

theorem deleteMutation_idempotent:
  "deleteMutation ident (deleteMutation ident st) = deleteMutation ident st
   \<and> (ident \<notin> m_id ` set (syncQueue (webState st)) \<longrightarrow>
        webState (deleteMutation ident st) = webState st
        \<and> listPendingMutations limit (deleteMutation ident st) = listPendingMutations limit st)"
proof -
  have absent: "filter (\<lambda>mutation. m_id mutation \<noteq> ident) q = q"
    if "ident \<notin> m_id ` set q" for q :: "SyncMutation list"
    using that by (induction q) auto
  have twice: "deleteMutation ident (deleteMutation ident st) = deleteMutation ident st"
    by (cases "storage st")
      (simp_all add: deleteMutation_def ensureWebState_def persistWebState_def Let_def)
  show ?thesis
    using twice absent [of "syncQueue (webState st)"]
    by (simp add: deleteMutation_def ensureWebState_def listPendingMutations_def Let_def)
qed

theorem deleteMutation_idempotent_witness:
  "''m9'' \<notin> m_id ` set (syncQueue (webState queuedStore))
   \<and> webState (deleteMutation ''m9'' queuedStore) = webState queuedStore
   \<and> map m_id (syncQueue (webState (deleteMutation ''m1'' queuedStore))) = [''m2'']
   \<and> deleteMutation ''m1'' (deleteMutation ''m1'' queuedStore) = deleteMutation ''m1'' queuedStore"
proof -
  have absent: "''m9'' \<notin> m_id ` set (syncQueue (webState queuedStore))"
    by (simp add: queuedStore_def sampleMutation_def)
  have once: "map m_id (syncQueue (webState (deleteMutation ''m1'' queuedStore))) = [''m2'']"
    by (simp add: queuedStore_def sampleMutation_def deleteMutation_def ensureWebState_def)
  from absent once deleteMutation_idempotent [of "''m9''" queuedStore 25]
    deleteMutation_idempotent [of "''m1''" queuedStore 25]
  show ?thesis by blast
qed



text \<open>
  C8. When a profile exists, \<open>saveUserProfile\<close> keeps its \<open>createdAt\<close>: the saved record is
  the existing one with \<open>fullName\<close>, \<open>email\<close>, \<open>bio\<close>, \<open>unitPreference\<close>, \<open>goalMass\<close> and
  \<open>updatedAt\<close> replaced and the id set to the fixed profile id, which is the id every
  profile written by this function already has. The record returned is the record stored,
  and nothing else in the database changes.
\<close>

theorem saveUserProfile_existing:
  "profile (webState st) = Some existing \<Longrightarrow> saveUserProfile now input st = (saved, st') \<Longrightarrow>
     p_createdAt saved = p_createdAt existing
     \<and> saved = existing
         \<lparr> p_id := PROFILE_ID,
           p_fullName := trim (pi_fullName input),
           p_email := map_option trim (pi_email input),
           p_bio := map_option trim (pi_bio input),
           p_unitPreference := (case pi_unitPreference input of None \<Rightarrow> Kg | Some u \<Rightarrow> u),
           p_goalMass :=
             (case pi_goalMass input of None \<Rightarrow> None | Some g \<Rightarrow> if isNaN g then None else Some g),
           p_updatedAt := now \<rparr>
     \<and> (p_id existing = PROFILE_ID \<longrightarrow> p_id saved = p_id existing)
     \<and> getUserProfile st' = Some saved
     \<and> webState st' = (webState st)\<lparr>profile := Some saved\<rparr>
     \<and> storage st' = (case storage st of None \<Rightarrow> None | Some _ \<Rightarrow> Some (Some (webState st')))"
  by (auto simp: saveUserProfile_def getUserProfile_def ensureWebState_def Let_def storage_persist
        split: option.splits)

theorem saveUserProfile_existing_witness:
  "profile (webState profileStore) = Some sampleProfile
   \<and> p_id sampleProfile = PROFILE_ID
   \<and> p_createdAt (fst (saveUserProfile 9 sampleProfileInput profileStore)) = 5
   \<and> p_updatedAt (fst (saveUserProfile 9 sampleProfileInput profileStore)) = 9
   \<and> p_id (fst (saveUserProfile 9 sampleProfileInput profileStore)) = p_id sampleProfile
   \<and> getUserProfile (snd (saveUserProfile 9 sampleProfileInput profileStore))
       = Some (fst (saveUserProfile 9 sampleProfileInput profileStore))"
proof -
  have existing: "profile (webState profileStore) = Some sampleProfile"
    by (simp add: profileStore_def)
  have fields: "p_id sampleProfile = PROFILE_ID" "p_createdAt sampleProfile = 5"
    by (simp_all add: sampleProfile_def)
  from fields existing
    saveUserProfile_existing [OF existing, of 9 sampleProfileInput
      "fst (saveUserProfile 9 sampleProfileInput profileStore)"
      "snd (saveUserProfile 9 sampleProfileInput profileStore)"]
  show ?thesis by simp
qed

lemma mergeSettings_idem: "mergeSettings (asPartial (mergeSettings p)) = mergeSettings p"
  by (simp add: mergeSettings_def asPartial_def spread_def Let_def DEFAULT_SETTINGS_def)

lemma mergeSettings_asPartial:
  "mergeSettings (asPartial s) =
     s\<lparr>reminderHour := (if isFinite (reminderHour s) then reminderHour s else Val 7)\<rparr>"
  by (simp add: mergeSettings_def asPartial_def spread_def Let_def DEFAULT_SETTINGS_def)

lemma saveAppSettings_eq:
  "saveAppSettings s st =
     (mergeSettings (asPartial s),
      persistWebState (st\<lparr>webState := (webState st)\<lparr>settings := mergeSettings (asPartial s)\<rparr>\<rparr>))"
  by (simp add: saveAppSettings_def applyWebSettings_def ensureWebState_def Let_def
        mergeSettings_idem)

lemma inHourRange_iff:
  "inHourRange h \<longleftrightarrow> \<not> (isNaN h \<or> num_less h (Val 0) \<or> num_less (Val 23) h)"
  by (cases h) auto

lemma inHourRange_finite: "inHourRange h \<Longrightarrow> isFinite h"
  by (cases h) auto

text \<open>
  C9, as stated, fails: \<open>saveAppSettings\<close> stores the hour 99 when given it, and
  \<open>getAppSettings\<close> returns it.
\<close>

theorem reminderHour_out_of_range:
  "\<not> inHourRange (reminderHour (getAppSettings
        (snd (saveAppSettings (DEFAULT_SETTINGS\<lparr>reminderHour := Val 99\<rparr>) freshStore))))"
  by (simp add: saveAppSettings_eq mergeSettings_asPartial getAppSettings_def ensureWebState_def)

text \<open>
  C9, amended. The settings \<open>saveAppSettings\<close> stores are the ones it returns and the ones
  \<open>getAppSettings\<close> then reads; their \<open>reminderHour\<close> is finite: the input's when that is
  finite, 7 otherwise, so it is within 0 to 23 whenever the input's is. The range is
  enforced by the settings screen: \<open>handleSaveReminder\<close> saves the parsed hour only when it
  is a number from 0 to 23, and leaves the settings untouched otherwise.
\<close>

theorem reminderHour_saved:
  "(case saveAppSettings s st of (normalized, st') \<Rightarrow>
      getAppSettings st' = normalized
      \<and> storage st' = (case storage st of None \<Rightarrow> None | Some _ \<Rightarrow> Some (Some (webState st')))
      \<and> isFinite (reminderHour normalized)
      \<and> reminderHour normalized = (if isFinite (reminderHour s) then reminderHour s else Val 7)
      \<and> (inHourRange (reminderHour s) \<longrightarrow> inHourRange (reminderHour normalized)))
   \<and> (let hour = parseInt reminderInput; s' = handleSaveReminder parseInt reminderInput (ss, st)
      in if inHourRange hour
         then reminderHour (getAppSettings (snd s')) = hour
              \<and> reminderHour (ss_settings (fst s')) = hour
         else s' = (ss, st))"
proof -
  have save: "case saveAppSettings s st of (normalized, st') \<Rightarrow>
      getAppSettings st' = normalized
      \<and> storage st' = (case storage st of None \<Rightarrow> None | Some _ \<Rightarrow> Some (Some (webState st')))
      \<and> isFinite (reminderHour normalized)
      \<and> reminderHour normalized = (if isFinite (reminderHour s) then reminderHour s else Val 7)
      \<and> (inHourRange (reminderHour s) \<longrightarrow> inHourRange (reminderHour normalized))"
    by (auto simp: saveAppSettings_eq mergeSettings_asPartial getAppSettings_def
          ensureWebState_def storage_persist inHourRange_finite split: option.splits)
  have form: "let hour = parseInt reminderInput;
                  s' = handleSaveReminder parseInt reminderInput (ss, st)
      in if inHourRange hour
         then reminderHour (getAppSettings (snd s')) = hour
              \<and> reminderHour (ss_settings (fst s')) = hour
         else s' = (ss, st)"
  proof (cases "inHourRange (parseInt reminderInput)")
    case True
    then have "\<not> (isNaN (parseInt reminderInput) \<or> num_less (parseInt reminderInput) (Val 0)
                 \<or> num_less (Val 23) (parseInt reminderInput))"
      by (simp add: inHourRange_iff)
    with True inHourRange_finite [OF True] show ?thesis
      by (simp add: handleSaveReminder_def update_def Let_def saveAppSettings_eq
            mergeSettings_asPartial getAppSettings_def ensureWebState_def spread_def noPatch_def)
  next
    case False
    then have "isNaN (parseInt reminderInput) \<or> num_less (parseInt reminderInput) (Val 0)
                 \<or> num_less (Val 23) (parseInt reminderInput)"
      by (simp add: inHourRange_iff)
    with False show ?thesis
      by (simp add: handleSaveReminder_def Let_def)
  qed
  from save form show ?thesis by blast
qed

theorem reminderHour_saved_witness:
  "inHourRange (reminderHour (DEFAULT_SETTINGS\<lparr>reminderHour := Val 8\<rparr>))
   \<and> inHourRange (reminderHour (getAppSettings
         (snd (saveAppSettings (DEFAULT_SETTINGS\<lparr>reminderHour := Val 8\<rparr>) freshStore))))
   \<and> inHourRange (sampleParseInt ''21'')
   \<and> reminderHour (getAppSettings
         (snd (handleSaveReminder sampleParseInt ''21'' (sampleSettingsState, freshStore)))) = Val 21
   \<and> \<not> inHourRange (sampleParseInt ''24'')
   \<and> handleSaveReminder sampleParseInt ''24'' (sampleSettingsState, freshStore)
       = (sampleSettingsState, freshStore)"
proof -
  have hyps: "inHourRange (reminderHour (DEFAULT_SETTINGS\<lparr>reminderHour := Val 8\<rparr>))"
      "inHourRange (sampleParseInt ''21'')" "\<not> inHourRange (sampleParseInt ''24'')"
      "sampleParseInt ''21'' = Val 21"
    by (simp_all add: sampleParseInt_def)
  from hyps
    reminderHour_saved [where s = "DEFAULT_SETTINGS\<lparr>reminderHour := Val 8\<rparr>"
      and st = freshStore and parseInt = sampleParseInt and reminderInput = "''21''"
      and ss = sampleSettingsState]
    reminderHour_saved [where s = "DEFAULT_SETTINGS\<lparr>reminderHour := Val 8\<rparr>"
      and st = freshStore and parseInt = sampleParseInt and reminderInput = "''24''"
      and ss = sampleSettingsState]
  show ?thesis
    by (simp add: Let_def split: prod.splits)
qed




section \<open>Properties of a sync run\<close>

lemma length_sendTrace [simp]: "length (sendTrace H ep tok w ms) = length ms"
  by (induction ms arbitrary: w) (auto split: prod.splits)










subsection \<open>The queue through a run\<close>












subsection \<open>The entries through a run\<close>












subsection \<open>The pending list\<close>















subsection \<open>The endpoint\<close>




subsection \<open>A run as a whole\<close>









subsection \<open>Sample runs\<close>














subsection \<open>Claims about a run\<close>

text \<open>
  C5. With no endpoint configured, \<open>syncPendingEntries\<close> returns the skipped result with
  its reason text, whatever the store holds, and gives back the host state and the store
  as they were: nothing is sent and nothing is written. The result is an ordinary value.
\<close>

theorem sync_skipped_without_endpoint:
  "SYNC_ENDPOINT rawSyncEndpoint = None \<Longrightarrow>
     syncPendingEntries H rawSyncEndpoint token (w, st) =
       (\<lparr> attempted = 0, synced = 0, skipped = True,
          reason = Some ''SYNC_ENDPOINT not configured'', errors = [] \<rparr>, w, st)
     \<and> (\<exists>text. reason (fst (syncPendingEntries H rawSyncEndpoint token (w, st))) = Some text
                \<and> text \<noteq> [])"
  by (simp add: syncPendingEntries_def)

theorem sync_skipped_without_endpoint_witness:
  "SYNC_ENDPOINT None = None \<and> SYNC_ENDPOINT (Some []) = None
   \<and> syncPendingEntries acceptAll None None (0, queuedStore) =
       (\<lparr> attempted = 0, synced = 0, skipped = True,
          reason = Some ''SYNC_ENDPOINT not configured'', errors = [] \<rparr>, 0, queuedStore)
   \<and> syncPendingEntries acceptAll (Some []) None (0, queuedStore) =
       (\<lparr> attempted = 0, synced = 0, skipped = True,
          reason = Some ''SYNC_ENDPOINT not configured'', errors = [] \<rparr>, 0, queuedStore)"
proof -
  have unset: "SYNC_ENDPOINT None = None" "SYNC_ENDPOINT (Some []) = None"
    by (simp_all add: SYNC_ENDPOINT_def suffix_def)
  from unset
    sync_skipped_without_endpoint [where rawSyncEndpoint = None and H = acceptAll
      and token = None and w = 0 and st = queuedStore]
    sync_skipped_without_endpoint [where rawSyncEndpoint = "Some []" and H = acceptAll
      and token = None and w = 0 and st = queuedStore]
  show ?thesis by blast
qed











end
